theory Spec2Isabelle
  imports Complex_Main
begin

section \<open>DistractionFreeReader: the session state machine and its state file\<close>

text \<open>
  A shallow embedding of \<^verbatim>\<open>DistractionFreeReader.pyw\<close>. The module-level functions
  (\<^verbatim>\<open>save_state\<close>, \<^verbatim>\<open>load_state\<close>, \<^verbatim>\<open>clear_state\<close>, \<^verbatim>\<open>add_to_startup\<close>,
  \<^verbatim>\<open>remove_from_startup\<close>) and the methods of \<^verbatim>\<open>TimerSetupDialog\<close> and
  \<^verbatim>\<open>PDFTimerReaderApp\<close> become functions on an explicit state.

  What lies outside the program is a parameter of the model:
  \<^item> the clock: every call of \<^verbatim>\<open>time.time()\<close> is an argument of its own, so two
    readings in one operation may differ. A float is a real number: the sum and the
    difference of two floats are taken exactly (their sign, which is all the code
    tests, is that of the exact result). The conversion of an int to a float, which
    \<^verbatim>\<open>int - float\<close> begins with, is modelled with its rounding and its
    \<^verbatim>\<open>OverflowError\<close>;
  \<^item> PyMuPDF: what \<^verbatim>\<open>fitz.open\<close> returns for a path, the page count of a document,
    whether a page index can be rendered and which page it then stands for, and the
    truth value of a document object;
  \<^item> the JSON library: the state file holds bytes that do not decode as text, text that
    \<^verbatim>\<open>json.load\<close> rejects, or the value it returns;
  \<^item> the operating system: the state file is a store cell and the \<^verbatim>\<open>Run\<close> registry
    value is another. Writing, reading and deleting them fail only where the state
    decides it (deleting what is not there); a refusal by the operating system for
    other reasons, which the source answers by printing a message, does not occur in
    this store. The directory of the state file is there.
  Widget texts, colours and the canvas geometry are not modelled. A message box
  returns at once, and no Tk callback runs while another one is running.
\<close>

subsection \<open>JSON values and Python's reading of them\<close>

datatype json =
    JNull
  | JBool bool
  | JInt int
  | JReal real
  | JStr string
  | JArr "json list"
  | JObj "(string \<times> json) list"

text \<open>What \<^verbatim>\<open>json.load\<close> makes of a file: its bytes do not decode as text
  (\<^verbatim>\<open>UnicodeDecodeError\<close>, which stands here for every exception of \<^verbatim>\<open>json.load\<close> that is
  not a \<^verbatim>\<open>JSONDecodeError\<close>), its text is not JSON (\<^verbatim>\<open>JSONDecodeError\<close>), or it is the
  text of a value. A \<open>JObj\<close> lists the items of the resulting dict, each key once; a
  \<open>JReal\<close> is a finite float.\<close>

datatype content = Undecodable | Garbled | Json json

text \<open>Python's truth value of a loaded JSON value (\<^verbatim>\<open>if saved_state:\<close>).\<close>

fun truthy :: "json \<Rightarrow> bool" where
  "truthy JNull = False"
| "truthy (JBool b) = b"
| "truthy (JInt i) = (i \<noteq> 0)"
| "truthy (JReal r) = (r \<noteq> 0)"
| "truthy (JStr s) = (s \<noteq> [])"
| "truthy (JArr xs) = (xs \<noteq> [])"
| "truthy (JObj kvs) = (kvs \<noteq> [])"

datatype py_error =
    TypeError | KeyError | AttributeError | OverflowError | UnicodeDecodeError | FitzError

text \<open>Python's \<^verbatim>\<open>float(i)\<close> for an int, as \<^verbatim>\<open>int - float\<close> computes it first: the int is
  rounded to 53 significant bits, a tie to the even neighbour, and the conversion raises
  \<^verbatim>\<open>OverflowError\<close> (here \<open>None\<close>) when the rounded magnitude reaches \<open>2 ^ 1024\<close>, that is
  from \<open>2 ^ 1024 - 2 ^ 970\<close> on.\<close>

fun bit_length :: "nat \<Rightarrow> nat" where
  "bit_length n = (if n = 0 then 0 else Suc (bit_length (n div 2)))"

declare bit_length.simps [simp del]

definition round_to_double :: "int \<Rightarrow> int" where
  "round_to_double a =
     (if a < 2 ^ 53 then a
      else (let s = bit_length (nat a) - 53;
                q = a div 2 ^ s;
                r = a mod 2 ^ s;
                h = 2 ^ (s - 1)
            in (if h < r \<or> (r = h \<and> odd q) then q + 1 else q) * 2 ^ s))"

definition py_float :: "int \<Rightarrow> real option" where
  "py_float i =
     (if 2 ^ 1024 - 2 ^ 970 \<le> \<bar>i\<bar> then None
      else Some (of_int (sgn i * round_to_double \<bar>i\<bar>)))"

text \<open>The number a value stands for in \<^verbatim>\<open>x - time.time()\<close>; \<open>None\<close> where Python raises,
  and \<open>num_error\<close> is what it raises then: \<^verbatim>\<open>OverflowError\<close> for an int, \<^verbatim>\<open>TypeError\<close> for
  what is not a number. A bool is an int in Python.\<close>

fun num_of :: "json \<Rightarrow> real option" where
  "num_of (JInt i) = py_float i"
| "num_of (JReal r) = Some r"
| "num_of (JBool b) = Some (if b then 1 else 0)"
| "num_of JNull = None"
| "num_of (JStr s) = None"
| "num_of (JArr xs) = None"
| "num_of (JObj kvs) = None"

fun num_error :: "json \<Rightarrow> py_error" where
  "num_error (JInt i) = OverflowError"
| "num_error v = TypeError"

subsection \<open>Paths, documents, message boxes\<close>

text \<open>A \<^verbatim>\<open>pathlib.Path\<close>: its anchor (drive and root) and its parts below the anchor.\<close>

record path =
  anchor :: string
  parts :: "string list"

definition parent :: "path \<Rightarrow> path" where
  "parent p = p\<lparr>parts := butlast (parts p)\<rparr>"

definition joinpath :: "path \<Rightarrow> string \<Rightarrow> path" where
  "joinpath p n = p\<lparr>parts := parts p @ [n]\<rparr>"

fun join_sep :: "string list \<Rightarrow> string" where
  "join_sep [] = []"
| "join_sep [x] = x"
| "join_sep (x # y # ys) = x @ [CHR 0x5C] @ join_sep (y # ys)"

definition path_str :: "path \<Rightarrow> string" where
  "path_str p = (if anchor p = [] \<and> parts p = [] then ''.'' else anchor p @ join_sep (parts p))"

text \<open>An open \<^verbatim>\<open>fitz.Document\<close>: its \<^verbatim>\<open>name\<close>, its \<^verbatim>\<open>page_count\<close>, whether
  \<^verbatim>\<open>doc[i]\<close> followed by the rendering calls of \<^verbatim>\<open>load_page\<close> succeeds for index \<open>i\<close>,
  the index (from 0) of the page that \<^verbatim>\<open>doc[i]\<close> is when it does, and the truth value of
  the object (\<^verbatim>\<open>if self.pdf_document:\<close>). PyMuPDF counts a negative index from the end,
  so the page shown need not be page \<open>i\<close>.\<close>

record pdf =
  doc_name :: string
  page_count :: nat
  renders :: "int \<Rightarrow> bool"
  shown :: "int \<Rightarrow> int"
  truth :: bool

datatype title =
    Error | Error_Loading_PDF | Error_Rendering_Page | Times_Up
  | Busy | Cancelled | Invalid_Time | Invalid_Input

datatype box = Showerror title | Showinfo title | Showwarning title

datatype os_error = FileNotFoundError

subsection \<open>The environment and the state\<close>

record env =
  IS_WINDOWS :: bool
  sys_executable :: path
  path_exists :: "path \<Rightarrow> bool"
  argv0_abspath :: string
  fitz_open :: "string \<Rightarrow> pdf option"

text \<open>
  The fields of \<^verbatim>\<open>PDFTimerReaderApp\<close> that the session logic reads, then Tk's serial
  number for \<^verbatim>\<open>after\<close> identifiers and the message boxes shown so far, then the two
  cells of the operating system. \<open>image_on_canvas\<close> records which page of the
  document the canvas shows; \<open>controls_disabled\<close> is set by \<^verbatim>\<open>disable_controls\<close> and reset by
  \<^verbatim>\<open>enable_controls\<close>. \<open>end_time\<close> holds a Python number: the int \<open>0\<close> of
  \<^verbatim>\<open>__init__\<close>, a float of \<^verbatim>\<open>time.time() + duration\<close>, or whatever the state file had.
\<close>

record world =
  pdf_document :: "pdf option"
  current_page_num :: int
  total_pages :: int
  image_on_canvas :: "int option"
  timer_running :: bool
  timer_after_id :: "nat option"
  end_time :: json
  controls_disabled :: bool
  after_serial :: nat
  boxes :: "box list"
  state_file :: "content option"
  run_value :: "string option"

text \<open>How a call ends: it returns, or an exception leaves it, with the state as it
  is then.\<close>

datatype outcome = Returns world | Raises py_error world

definition messagebox :: "box \<Rightarrow> world \<Rightarrow> world" where
  "messagebox b w = w\<lparr>boxes := boxes w @ [b]\<rparr>"

definition has_document :: "world \<Rightarrow> bool" where
  "has_document w = (case pdf_document w of None \<Rightarrow> False | Some d \<Rightarrow> truth d)"

subsection \<open>Persistence and startup management\<close>

definition quoted :: "string \<Rightarrow> string" where
  "quoted s = [CHR 0x22] @ s @ [CHR 0x22]"

definition app_executable :: "env \<Rightarrow> string" where
  "app_executable E =
     (let python_exe_path = sys_executable E;
          pythonw_exe_path = joinpath (parent python_exe_path) ''pythonw.exe''
      in if path_exists E pythonw_exe_path then path_str pythonw_exe_path
         else path_str python_exe_path)"

definition command :: "env \<Rightarrow> string" where
  "command E = quoted (app_executable E) @ '' '' @ quoted (argv0_abspath E)"

definition add_to_startup :: "env \<Rightarrow> world \<Rightarrow> world" where
  "add_to_startup E w =
     (if \<not> IS_WINDOWS E then w else w\<lparr>run_value := Some (command E)\<rparr>)"

text \<open>\<^verbatim>\<open>winreg.DeleteValue\<close>: raises \<^verbatim>\<open>FileNotFoundError\<close> when the value is not there.\<close>

definition DeleteValue :: "world \<Rightarrow> os_error + world" where
  "DeleteValue w =
     (case run_value w of None \<Rightarrow> Inl FileNotFoundError
      | Some c \<Rightarrow> Inr (w\<lparr>run_value := None\<rparr>))"

definition remove_from_startup :: "env \<Rightarrow> world \<Rightarrow> world" where
  "remove_from_startup E w =
     (if \<not> IS_WINDOWS E then w
      else (case DeleteValue w of
              Inl FileNotFoundError \<Rightarrow> w
            | Inr w' \<Rightarrow> w'))"

definition save_state :: "env \<Rightarrow> string \<Rightarrow> int \<Rightarrow> json \<Rightarrow> world \<Rightarrow> world" where
  "save_state E filepath page_num end_t w =
     (let state = JObj [(''pdf_path'', JStr filepath),
                        (''page_num'', JInt page_num),
                        (''end_time'', end_t)]
      in add_to_startup E (w\<lparr>state_file := Some (Json state)\<rparr>))"

text \<open>\<^verbatim>\<open>load_state\<close> returns Python's \<^verbatim>\<open>None\<close>, which is also what JSON's \<^verbatim>\<open>null\<close>
  loads as, when the file is missing or its text is not JSON. Its handler names
  \<^verbatim>\<open>IOError\<close> and \<^verbatim>\<open>json.JSONDecodeError\<close>; a \<^verbatim>\<open>UnicodeDecodeError\<close> is neither and leaves
  the function.\<close>

definition load_state :: "world \<Rightarrow> py_error + json" where
  "load_state w =
     (case state_file w of
        None \<Rightarrow> Inr JNull
      | Some Undecodable \<Rightarrow> Inl UnicodeDecodeError
      | Some Garbled \<Rightarrow> Inr JNull
      | Some (Json j) \<Rightarrow> Inr j)"

text \<open>\<^verbatim>\<open>Path.unlink\<close>: raises \<^verbatim>\<open>FileNotFoundError\<close> when the file is not there.\<close>

definition unlink :: "world \<Rightarrow> os_error + world" where
  "unlink w =
     (case state_file w of None \<Rightarrow> Inl FileNotFoundError
      | Some c \<Rightarrow> Inr (w\<lparr>state_file := None\<rparr>))"

definition clear_state :: "env \<Rightarrow> world \<Rightarrow> world" where
  "clear_state E w =
     remove_from_startup E
       (if state_file w \<noteq> None
        then (case unlink w of Inl e \<Rightarrow> w | Inr w' \<Rightarrow> w')
        else w)"

subsection \<open>The timer dialog\<close>

record timer_dialog =
  total_seconds :: int
  destroyed :: bool
  dialog_boxes :: "box list"

definition new_dialog :: timer_dialog where
  "new_dialog = \<lparr>total_seconds = 0, destroyed = False, dialog_boxes = []\<rparr>"

text \<open>\<open>hours\<close> and \<open>minutes\<close> are the results of \<^verbatim>\<open>int(...)\<close> on the two entry texts,
  \<open>None\<close> where it raises \<^verbatim>\<open>ValueError\<close>.\<close>

definition on_start :: "int option \<Rightarrow> int option \<Rightarrow> timer_dialog \<Rightarrow> timer_dialog" where
  "on_start hours minutes d =
     (case hours of
        None \<Rightarrow> d\<lparr>dialog_boxes := dialog_boxes d @ [Showerror Invalid_Input]\<rparr>
      | Some h \<Rightarrow>
     (case minutes of
        None \<Rightarrow> d\<lparr>dialog_boxes := dialog_boxes d @ [Showerror Invalid_Input]\<rparr>
      | Some m \<Rightarrow>
          if h < 0 \<or> m < 0
          then d\<lparr>dialog_boxes := dialog_boxes d @ [Showerror Invalid_Input]\<rparr>
          else (let d1 = d\<lparr>total_seconds := h * 3600 + m * 60\<rparr>
                in if total_seconds d1 \<le> 0
                   then d1\<lparr>dialog_boxes := dialog_boxes d1 @ [Showwarning Invalid_Time]\<rparr>
                   else d1\<lparr>destroyed := True\<rparr>)))"

definition on_cancel :: "timer_dialog \<Rightarrow> timer_dialog" where
  "on_cancel d = d\<lparr>total_seconds := 0, destroyed := True\<rparr>"

text \<open>What the user does with the dialog until it is destroyed (\<^verbatim>\<open>wait_window\<close>).\<close>

datatype dialog_event = Start "int option" "int option" | Cancel

fun run_dialog :: "dialog_event list \<Rightarrow> timer_dialog \<Rightarrow> timer_dialog" where
  "run_dialog [] d = d"
| "run_dialog (e # es) d =
     (if destroyed d then d
      else run_dialog es (case e of Start h m \<Rightarrow> on_start h m d | Cancel \<Rightarrow> on_cancel d))"

subsection \<open>The reader\<close>

definition enable_controls :: "world \<Rightarrow> world" where
  "enable_controls w = w\<lparr>controls_disabled := False\<rparr>"

definition disable_controls :: "world \<Rightarrow> world" where
  "disable_controls w = w\<lparr>controls_disabled := True\<rparr>"

definition reset_viewer :: "world \<Rightarrow> world" where
  "reset_viewer w =
     (let w1 = (if has_document w then w\<lparr>pdf_document := None\<rparr> else w)
      in w1\<lparr>current_page_num := 0, total_pages := 0, image_on_canvas := None\<rparr>)"

definition finish_session :: "env \<Rightarrow> world \<Rightarrow> world" where
  "finish_session E w =
     (let w1 = w\<lparr>timer_running := False\<rparr>;
          w2 = (if timer_after_id w1 \<noteq> None then w1\<lparr>timer_after_id := None\<rparr> else w1);
          w3 = clear_state E w2;
          w4 = messagebox (Showinfo Times_Up) w3
      in enable_controls w4)"

definition load_page :: "env \<Rightarrow> world \<Rightarrow> world" where
  "load_page E w =
     (case pdf_document w of
        None \<Rightarrow> w
      | Some d \<Rightarrow>
          if \<not> truth d then w
          else if renders d (current_page_num w)
          then w\<lparr>image_on_canvas := Some (shown d (current_page_num w))\<rparr>
          else finish_session E (messagebox (Showerror Error_Rendering_Page) w))"

text \<open>\<^verbatim>\<open>load_page\<close> and what it calls leave \<^verbatim>\<open>self.pdf_document\<close> alone, so the document
  whose \<^verbatim>\<open>name\<close> is saved after it is the one tested before it.\<close>

definition next_page :: "env \<Rightarrow> world \<Rightarrow> world" where
  "next_page E w =
     (case pdf_document w of
        None \<Rightarrow> w
      | Some d \<Rightarrow>
          if truth d \<and> current_page_num w < total_pages w - 1
          then (let w1 = load_page E (w\<lparr>current_page_num := current_page_num w + 1\<rparr>)
                in save_state E (doc_name d) (current_page_num w1) (end_time w1) w1)
          else w)"

definition prev_page :: "env \<Rightarrow> world \<Rightarrow> world" where
  "prev_page E w =
     (case pdf_document w of
        None \<Rightarrow> w
      | Some d \<Rightarrow>
          if truth d \<and> current_page_num w > 0
          then (let w1 = load_page E (w\<lparr>current_page_num := current_page_num w - 1\<rparr>)
                in save_state E (doc_name d) (current_page_num w1) (end_time w1) w1)
          else w)"

text \<open>\<open>now\<close> is the reading of the clock in this call.\<close>

definition update_timer :: "env \<Rightarrow> real \<Rightarrow> world \<Rightarrow> outcome" where
  "update_timer E now w =
     (if \<not> timer_running w then Returns w
      else (case num_of (end_time w) of
              None \<Rightarrow> Raises (num_error (end_time w)) w
            | Some e \<Rightarrow>
                if e - now \<le> 0 then Returns (finish_session E w)
                else Returns (w\<lparr>timer_after_id := Some (after_serial w),
                                after_serial := Suc (after_serial w)\<rparr>)))"

text \<open>\<open>now\<close> is the reading taken by \<^verbatim>\<open>start_timer\<close> itself, \<open>tick\<close> the one taken by the
  \<^verbatim>\<open>update_timer\<close> it calls. Subscripting a loaded value that is not a dict raises
  \<^verbatim>\<open>TypeError\<close>, a dict without the key \<^verbatim>\<open>KeyError\<close>.\<close>

definition start_timer :: "env \<Rightarrow> real \<Rightarrow> bool \<Rightarrow> real \<Rightarrow> real \<Rightarrow> world \<Rightarrow> outcome" where
  "start_timer E duration_seconds is_resume now tick w =
     (if \<not> is_resume
      then update_timer E tick
             (w\<lparr>end_time := JReal (now + duration_seconds), timer_running := True\<rparr>)
      else (case load_state w of
              Inl e \<Rightarrow> Raises e w
            | Inr saved_state \<Rightarrow>
                if truthy saved_state
                then (case saved_state of
                        JObj kvs \<Rightarrow>
                          (case map_of kvs ''end_time'' of
                             None \<Rightarrow> Raises KeyError w
                           | Some v \<Rightarrow>
                               update_timer E tick (w\<lparr>end_time := v, timer_running := True\<rparr>))
                      | _ \<Rightarrow> Raises TypeError w)
                else update_timer E tick
                       (w\<lparr>end_time := JReal (now + duration_seconds),
                          timer_running := True\<rparr>)))"

text \<open>The body of the \<^verbatim>\<open>try\<close> of \<^verbatim>\<open>start_session\<close>, after \<^verbatim>\<open>reset_viewer\<close>.
  \<^verbatim>\<open>Path(filepath)\<close> raises \<^verbatim>\<open>TypeError\<close> for anything but a string.\<close>

definition start_session_try ::
  "env \<Rightarrow> json \<Rightarrow> real \<Rightarrow> int \<Rightarrow> bool \<Rightarrow> real \<Rightarrow> real \<Rightarrow> world \<Rightarrow> outcome" where
  "start_session_try E filepath duration_seconds page_num is_resume now tick w =
     (case filepath of
        JStr p \<Rightarrow>
          (case fitz_open E p of
             None \<Rightarrow> Raises FitzError w
           | Some d \<Rightarrow>
               (let w1 = w\<lparr>pdf_document := Some d, total_pages := int (page_count d)\<rparr>
                in if total_pages w1 = 0
                   then Returns (reset_viewer (messagebox (Showerror Error) w1))
                   else (let w2 = load_page E (w1\<lparr>current_page_num := page_num\<rparr>)
                         in case start_timer E duration_seconds is_resume now tick w2 of
                              Returns w3 \<Rightarrow>
                                (let w4 = disable_controls w3
                                 in Returns (if \<not> is_resume
                                             then save_state E p (current_page_num w4)
                                                    (end_time w4) w4
                                             else w4))
                            | Raises e w3 \<Rightarrow> Raises e w3)))
      | _ \<Rightarrow> Raises TypeError w)"

text \<open>\<^verbatim>\<open>except Exception\<close> catches whatever the body raises, so \<^verbatim>\<open>start_session\<close>
  always returns.\<close>

definition start_session ::
  "env \<Rightarrow> json \<Rightarrow> real \<Rightarrow> int \<Rightarrow> bool \<Rightarrow> real \<Rightarrow> real \<Rightarrow> world \<Rightarrow> world" where
  "start_session E filepath duration_seconds page_num is_resume now tick w =
     (case start_session_try E filepath duration_seconds page_num is_resume now tick
             (reset_viewer w) of
        Returns w' \<Rightarrow> w'
      | Raises e w' \<Rightarrow>
          clear_state E (reset_viewer (messagebox (Showerror Error_Loading_PDF) w')))"

text \<open>\<open>t\<close> is the reading of the clock in \<^verbatim>\<open>check_for_saved_session\<close>; \<open>now\<close> and \<open>tick\<close>
  are the later ones of \<^verbatim>\<open>start_timer\<close> and \<^verbatim>\<open>update_timer\<close>. \<^verbatim>\<open>.get\<close> on a value that
  is not a dict raises \<^verbatim>\<open>AttributeError\<close>. The exceptions leave the method: it is a
  Tk callback with no handler of its own. \<open>current_page_num\<close> is an int in this model,
  so a run that would store another kind of value there (a \<^verbatim>\<open>page_num\<close> in the file that
  is not an int) is outside it: the result is \<open>None\<close>.\<close>

definition check_for_saved_session ::
  "env \<Rightarrow> real \<Rightarrow> real \<Rightarrow> real \<Rightarrow> world \<Rightarrow> outcome option" where
  "check_for_saved_session E t now tick w =
     (case load_state w of
        Inl e \<Rightarrow> Some (Raises e w)
      | Inr saved_state \<Rightarrow>
          if truthy saved_state
          then (case saved_state of
                  JObj kvs \<Rightarrow>
                    (let v = (case map_of kvs ''end_time'' of None \<Rightarrow> JInt 0 | Some v \<Rightarrow> v)
                     in case num_of v of
                       None \<Rightarrow> Some (Raises (num_error v) w)
                     | Some e \<Rightarrow>
                         (let remaining_time = e - t
                          in if remaining_time > 0
                             then (case map_of kvs ''pdf_path'' of
                                     None \<Rightarrow> Some (Raises KeyError w)
                                   | Some fp \<Rightarrow>
                                       (case map_of kvs ''page_num'' of
                                          None \<Rightarrow> Some (Raises KeyError w)
                                        | Some (JInt n) \<Rightarrow>
                                            Some (Returns
                                              (start_session E fp remaining_time n True now tick w))
                                        | Some _ \<Rightarrow> None))
                             else Some (Returns (clear_state E w))))
                | _ \<Rightarrow> Some (Raises AttributeError w))
          else Some (Returns w))"

text \<open>\<open>chosen\<close> is what the file dialog returns (empty when it is dismissed), \<open>dialog\<close>
  the timer dialog once its window is gone.\<close>

definition select_pdf ::
  "env \<Rightarrow> string \<Rightarrow> timer_dialog \<Rightarrow> real \<Rightarrow> real \<Rightarrow> world \<Rightarrow> world" where
  "select_pdf E chosen dialog now tick w =
     (if timer_running w then messagebox (Showwarning Busy) w
      else if chosen = [] then w
      else (let duration_seconds = total_seconds dialog
            in if duration_seconds > 0
               then start_session E (JStr chosen) (of_int duration_seconds) 0 False now tick w
               else messagebox (Showinfo Cancelled) w))"

subsection \<open>Navigation as a sequence of button presses\<close>

datatype nav = Next | Prev

fun run_nav :: "env \<Rightarrow> nav list \<Rightarrow> world \<Rightarrow> world" where
  "run_nav E [] w = w"
| "run_nav E (Next # ops) w = run_nav E ops (next_page E w)"
| "run_nav E (Prev # ops) w = run_nav E ops (prev_page E w)"

subsection \<open>Observations on the state\<close>

text \<open>The page index lies in \<open>[0, total_pages - 1]\<close>.\<close>

definition page_in_range :: "world \<Rightarrow> bool" where
  "page_in_range w = (0 \<le> current_page_num w \<and> current_page_num w \<le> total_pages w - 1)"

text \<open>The same for a viewer that holds pages: after \<^verbatim>\<open>reset_viewer\<close> there are none.\<close>

definition page_inv :: "world \<Rightarrow> bool" where
  "page_inv w = (1 \<le> total_pages w \<longrightarrow> page_in_range w)"

text \<open>The state a call leaves behind, however it ends.\<close>

fun final :: "outcome \<Rightarrow> world" where
  "final (Returns w) = w"
| "final (Raises e w) = w"


text \<open>The session is over: no record, no running timer, no pending tick.\<close>

definition session_over :: "world \<Rightarrow> bool" where
  "session_over w = (state_file w = None \<and> \<not> timer_running w \<and> timer_after_id w = None)"

subsection \<open>A concrete installation\<close>

text \<open>A Windows machine with \<^verbatim>\<open>pythonw.exe\<close> beside \<^verbatim>\<open>python.exe\<close>, a book of three
  pages that all render, and a PDF without pages. Every other path fails to open. The
  book is indexed as PyMuPDF does it: an index from 3 on raises, a negative one is
  counted from the end.\<close>

definition python_exe :: path where
  "python_exe = \<lparr>anchor = ''C:'' @ [CHR 0x5C], parts = [''Python'', ''python.exe'']\<rparr>"

definition book :: pdf where
  "book = \<lparr>doc_name = ''book.pdf'', page_count = 3,
            renders = (\<lambda>i. i < 3), shown = (\<lambda>i. i mod 3), truth = True\<rparr>"

definition blank :: pdf where
  "blank = \<lparr>doc_name = ''blank.pdf'', page_count = 0,
             renders = (\<lambda>i. False), shown = (\<lambda>i. i), truth = False\<rparr>"

definition desk :: env where
  "desk = \<lparr>IS_WINDOWS = True, sys_executable = python_exe,
            path_exists = (\<lambda>p. True), argv0_abspath = ''reader.pyw'',
            fitz_open = (\<lambda>p. if p = ''book.pdf'' then Some book
                              else if p = ''blank.pdf'' then Some blank else None)\<rparr>"

text \<open>The state after \<^verbatim>\<open>__init__\<close>, with the given state file on disk.\<close>

definition fresh :: "content option \<Rightarrow> world" where
  "fresh f = \<lparr>pdf_document = None, current_page_num = 0, total_pages = 0,
              image_on_canvas = None, timer_running = False, timer_after_id = None,
              end_time = JInt 0, controls_disabled = False, after_serial = 0,
              boxes = [], state_file = f, run_value = None\<rparr>"

definition record_of :: "string \<Rightarrow> int \<Rightarrow> json \<Rightarrow> content" where
  "record_of p n e = Json (JObj [(''pdf_path'', JStr p), (''page_num'', JInt n), (''end_time'', e)])"

text \<open>A new session of 1800 seconds on the book, started at time 1000.\<close>

definition reading :: world where
  "reading = start_session desk (JStr ''book.pdf'') 1800 0 False 1000 1001 (fresh None)"



text \<open>What is left of a resume whose saved page number lies beyond the book.\<close>

definition overrun :: world where
  "overrun = \<lparr>pdf_document = Some book, current_page_num = 7, total_pages = 3,
     image_on_canvas = None, timer_running = True, timer_after_id = Some 0,
     end_time = JReal 101, controls_disabled = True, after_serial = 1,
     boxes = [Showerror Error_Rendering_Page, Showinfo Times_Up],
     state_file = None, run_value = None\<rparr>"

section \<open>Basic facts\<close>

text \<open>An int below \<open>2 ^ 53\<close> in magnitude is a float as it is.\<close>

lemma py_float_exact: "\<bar>i\<bar> < 2 ^ 53 \<Longrightarrow> py_float i = Some (of_int i)"
proof -
  assume a: "\<bar>i\<bar> < 2 ^ 53"
  have "(2::int) ^ 53 \<le> 2 ^ 1024 - 2 ^ 970"
    by simp
  with a have "\<not> 2 ^ 1024 - 2 ^ 970 \<le> \<bar>i\<bar>"
    by linarith
  moreover have "sgn i * \<bar>i\<bar> = i"
    by (simp add: sgn_if)
  ultimately show ?thesis
    using a by (simp add: py_float_def round_to_double_def)
qed

lemma remove_from_startup_eq:
  "remove_from_startup E w = (if IS_WINDOWS E then w\<lparr>run_value := None\<rparr> else w)"
  by (cases "run_value w") (simp_all add: remove_from_startup_def DeleteValue_def)

lemma clear_state_eq:
  "clear_state E w =
     (if IS_WINDOWS E then w\<lparr>state_file := None, run_value := None\<rparr>
      else w\<lparr>state_file := None\<rparr>)"
  by (cases "state_file w") (simp_all add: clear_state_def unlink_def remove_from_startup_eq)

lemma finish_session_eq:
  "finish_session E w =
     (clear_state E w)\<lparr>timer_running := False, timer_after_id := None,
        boxes := boxes w @ [Showinfo Times_Up], controls_disabled := False\<rparr>"
  by (cases "timer_after_id w")
     (simp_all add: finish_session_def clear_state_eq messagebox_def enable_controls_def Let_def)

lemma save_state_eq:
  "save_state E p n e w =
     (if IS_WINDOWS E
      then w\<lparr>state_file := Some (record_of p n e), run_value := Some (command E)\<rparr>
      else w\<lparr>state_file := Some (record_of p n e)\<rparr>)"
  by (simp add: save_state_def add_to_startup_def record_of_def)

lemma load_page_keeps:
  "current_page_num (load_page E w) = current_page_num w"
  "total_pages (load_page E w) = total_pages w"
  "pdf_document (load_page E w) = pdf_document w"
  "end_time (load_page E w) = end_time w"
  by (simp_all add: load_page_def finish_session_eq clear_state_eq messagebox_def
        split: option.splits)

lemmas model_defs =
  start_session_def start_session_try_def start_timer_def update_timer_def load_page_def
  finish_session_eq clear_state_eq save_state_eq reset_viewer_def has_document_def
  messagebox_def disable_controls_def load_state_def next_page_def prev_page_def
  check_for_saved_session_def select_pdf_def py_float_exact

lemmas desk_defs = desk_def book_def blank_def fresh_def record_of_def python_exe_def

lemma reading_eq:
  "reading = \<lparr>pdf_document = Some book, current_page_num = 0, total_pages = 3,
     image_on_canvas = Some 0, timer_running = True, timer_after_id = Some 0,
     end_time = JReal 2800, controls_disabled = True, after_serial = 1,
     boxes = [], state_file = Some (record_of ''book.pdf'' 0 (JReal 2800)),
     run_value = Some (command desk)\<rparr>"
  by (simp add: reading_def model_defs desk_defs Let_def)

section \<open>The page index\<close>

lemma next_page_range: "page_in_range w \<Longrightarrow> page_in_range (next_page E w)"
  by (simp add: next_page_def page_in_range_def save_state_eq load_page_keeps Let_def
        split: option.splits)

lemma prev_page_range: "page_in_range w \<Longrightarrow> page_in_range (prev_page E w)"
  by (simp add: prev_page_def page_in_range_def save_state_eq load_page_keeps Let_def
        split: option.splits)

lemma next_page_total: "total_pages (next_page E w) = total_pages w"
  by (simp add: next_page_def save_state_eq load_page_keeps Let_def split: option.splits)

lemma prev_page_total: "total_pages (prev_page E w) = total_pages w"
  by (simp add: prev_page_def save_state_eq load_page_keeps Let_def split: option.splits)

lemma run_nav_range: "page_in_range w \<Longrightarrow> page_in_range (run_nav E ops w)"
proof (induction ops arbitrary: w)
  case Nil
  then show ?case by simp
next
  case (Cons a ops)
  then show ?case by (cases a) (simp_all add: next_page_range prev_page_range)
qed

lemma run_nav_total: "total_pages (run_nav E ops w) = total_pages w"
proof (induction ops arbitrary: w)
  case Nil
  then show ?case by simp
next
  case (Cons a ops)
  then show ?case by (cases a) (simp_all add: next_page_total prev_page_total)
qed

lemma run_nav_inv: "page_inv w \<Longrightarrow> page_inv (run_nav E ops w)"
  by (simp add: page_inv_def run_nav_total run_nav_range)

lemma update_timer_pages:
  "current_page_num (final (update_timer E t w)) = current_page_num w"
  "total_pages (final (update_timer E t w)) = total_pages w"
  by (simp_all add: update_timer_def finish_session_eq clear_state_eq split: option.splits)

lemma start_timer_pages:
  "current_page_num (final (start_timer E dur r now tick w)) = current_page_num w"
  "total_pages (final (start_timer E dur r now tick w)) = total_pages w"
  by (simp_all add: start_timer_def update_timer_pages split: option.splits json.splits
        sum.splits)

lemma start_session_new_inv:
  "page_inv (start_session E fp dur 0 False now tick w)"
proof (cases fp)
  case (JStr p)
  show ?thesis
  proof (cases "fitz_open E p")
    case None
    with JStr show ?thesis
      by (simp add: start_session_def start_session_try_def page_inv_def clear_state_eq
            reset_viewer_def)
  next
    case (Some d)
    let ?w1 = "(reset_viewer w)\<lparr>pdf_document := Some d, total_pages := int (page_count d),
                  current_page_num := 0\<rparr>"
    let ?o = "start_timer E dur False now tick (load_page E ?w1)"
    have cur: "current_page_num (final ?o) = 0"
      and tot: "total_pages (final ?o) = int (page_count d)"
      by (simp_all add: start_timer_pages load_page_keeps)
    show ?thesis
    proof (cases "page_count d = 0")
      case True
      with JStr Some show ?thesis
        by (simp add: start_session_def start_session_try_def page_inv_def reset_viewer_def
              Let_def)
    next
      case False
      show ?thesis
      proof (cases ?o)
        case (Returns w3)
        with cur tot JStr Some False show ?thesis
          by (simp add: start_session_def start_session_try_def page_inv_def page_in_range_def
                save_state_eq disable_controls_def Let_def)
      next
        case (Raises e w3)
        with JStr Some False show ?thesis
          by (simp add: start_session_def start_session_try_def page_inv_def clear_state_eq
                reset_viewer_def Let_def)
      qed
    qed
  qed
qed (simp_all add: start_session_def start_session_try_def page_inv_def clear_state_eq
       reset_viewer_def)

lemma start_session_resume_inv:
  assumes "fitz_open E p = Some d" "0 \<le> pn" "pn < int (page_count d)"
  shows "page_inv (start_session E (JStr p) dur pn True now tick w)"
proof -
  let ?w1 = "(reset_viewer w)\<lparr>pdf_document := Some d, total_pages := int (page_count d),
                current_page_num := pn\<rparr>"
  let ?o = "start_timer E dur True now tick (load_page E ?w1)"
  have cur: "current_page_num (final ?o) = pn"
    and tot: "total_pages (final ?o) = int (page_count d)"
    by (simp_all add: start_timer_pages load_page_keeps)
  from assms have nz: "page_count d \<noteq> 0" by auto
  show ?thesis
  proof (cases ?o)
    case (Returns w3)
    with cur tot assms nz show ?thesis
      by (simp add: start_session_def start_session_try_def page_inv_def page_in_range_def
            disable_controls_def Let_def)
  next
    case (Raises e w3)
    with assms nz show ?thesis
      by (simp add: start_session_def start_session_try_def page_inv_def clear_state_eq
            reset_viewer_def Let_def)
  qed
qed

text \<open>
  C2, as the code has it. \<^verbatim>\<open>next_page\<close> and \<^verbatim>\<open>prev_page\<close> keep the page index within
  \<open>[0, total_pages - 1]\<close> over every sequence of presses, once it is there. A new session
  starts there (page 0 of a document with at least one page), and so does a resumed one
  whose initial \<^verbatim>\<open>page_num\<close> lies within the opened document. \<^verbatim>\<open>start_session\<close> itself
  does not compare \<^verbatim>\<open>page_num\<close> with the page count.
\<close>

theorem page_index_stays_in_range:
  "(page_in_range w \<longrightarrow> page_in_range (run_nav E ops w)) \<and>
   page_inv (run_nav E ops (start_session E fp dur 0 False now tick w0)) \<and>
   (fitz_open E p = Some d \<and> 0 \<le> pn \<and> pn < int (page_count d) \<longrightarrow>
      page_inv (run_nav E ops (start_session E (JStr p) dur pn True now tick w0)))"
  by (simp add: run_nav_range run_nav_inv start_session_new_inv start_session_resume_inv)

text \<open>The book at page 0, four presses, and a resume at page 2 of 3.\<close>

theorem page_index_stays_in_range_witness:
  "page_in_range reading \<and>
   page_in_range (run_nav desk [Next, Next, Next, Prev] reading) \<and>
   1 \<le> total_pages (run_nav desk [Next] reading) \<and>
   fitz_open desk ''book.pdf'' = Some book \<and> (0::int) \<le> 2 \<and> 2 < int (page_count book) \<and>
   page_inv (run_nav desk [Prev]
     (start_session desk (JStr ''book.pdf'') 50 2 True 51 52
        (fresh (Some (record_of ''book.pdf'' 2 (JInt 100))))))"
proof -
  have r: "page_in_range reading"
    by (simp add: reading_eq page_in_range_def)
  have o: "fitz_open desk ''book.pdf'' = Some book \<and> (0::int) \<le> 2 \<and> 2 < int (page_count book)"
    by (simp add: desk_defs)
  have t: "1 \<le> total_pages (run_nav desk [Next] reading)"
    by (simp add: next_page_total reading_eq)
  from r o t
    page_index_stays_in_range [where w = reading and E = desk
       and ops = "[Next, Next, Next, Prev]"]
    page_index_stays_in_range [where E = desk and ops = "[Prev]" and p = "''book.pdf''"
       and d = book and pn = 2 and dur = 50 and now = 51 and tick = 52
       and ?w0.0 = "fresh (Some (record_of ''book.pdf'' 2 (JInt 100)))"]
  show ?thesis by simp
qed

text \<open>
  C2 as stated fails for a resumed session. The state file names page 7 of the book,
  which has three pages, and its deadline 100 is still ahead at time 50. At startup the
  book is opened, \<^verbatim>\<open>current_page_num\<close> becomes 7, rendering fails, the session is
  finished, and the timer is started all the same: the index is 7 with
  \<^verbatim>\<open>total_pages = 3\<close>, and it stays outside the range under \<^verbatim>\<open>next_page\<close> and
  \<^verbatim>\<open>prev_page\<close>.
\<close>

theorem resumed_page_out_of_range:
  "check_for_saved_session desk 50 51 52 (fresh (Some (record_of ''book.pdf'' 7 (JInt 100))))
     = Some (Returns overrun) \<and>
   has_document overrun \<and> 1 \<le> total_pages overrun \<and>
   \<not> page_in_range overrun \<and>
   \<not> page_in_range (next_page desk overrun) \<and>
   \<not> page_in_range (prev_page desk overrun)"
  by (simp add: overrun_def model_defs desk_defs page_in_range_def Let_def)

section \<open>When the record is deleted\<close>

text \<open>
  C1, as the code has it. The record is deleted when the timer expires
  (\<^verbatim>\<open>update_timer\<close> at or after the deadline ends the session) and when the PDF cannot
  be opened (\<^verbatim>\<open>start_session\<close> clears the state in its handler). Reaching the last page
  does not delete it: a press of Next or Prev whose page renders, the press onto the
  last page included, leaves the record of the page it reached, and the timer as it was.
\<close>

theorem record_deletion_cases:
  "(timer_running w \<and> num_of (end_time w) = Some e \<and> e \<le> now \<longrightarrow>
      update_timer E now w = Returns (finish_session E w) \<and>
      state_file (finish_session E w) = None) \<and>
   (fitz_open E p = None \<longrightarrow>
      state_file (start_session E (JStr p) dur pn r now tick w0) = None) \<and>
   (pdf_document w = Some d \<and> truth d \<and> current_page_num w < total_pages w - 1 \<and>
    renders d (current_page_num w + 1) \<longrightarrow>
      current_page_num (next_page E w) = current_page_num w + 1 \<and>
      timer_running (next_page E w) = timer_running w \<and>
      state_file (next_page E w) =
        Some (record_of (doc_name d) (current_page_num w + 1) (end_time w))) \<and>
   (pdf_document w = Some d \<and> truth d \<and> 0 < current_page_num w \<and>
    renders d (current_page_num w - 1) \<longrightarrow>
      current_page_num (prev_page E w) = current_page_num w - 1 \<and>
      timer_running (prev_page E w) = timer_running w \<and>
      state_file (prev_page E w) =
        Some (record_of (doc_name d) (current_page_num w - 1) (end_time w)))"
proof (intro conjI impI)
  assume "timer_running w \<and> num_of (end_time w) = Some e \<and> e \<le> now"
  then show "update_timer E now w = Returns (finish_session E w)"
    by (simp add: update_timer_def)
next
  show "state_file (finish_session E w) = None"
    by (simp add: finish_session_eq clear_state_eq)
next
  assume "fitz_open E p = None"
  then show "state_file (start_session E (JStr p) dur pn r now tick w0) = None"
    by (simp add: start_session_def start_session_try_def clear_state_eq)
next
  assume a: "pdf_document w = Some d \<and> truth d \<and> current_page_num w < total_pages w - 1 \<and>
    renders d (current_page_num w + 1)"
  then show "current_page_num (next_page E w) = current_page_num w + 1"
    and "timer_running (next_page E w) = timer_running w"
    and "state_file (next_page E w) =
      Some (record_of (doc_name d) (current_page_num w + 1) (end_time w))"
    by (simp_all add: next_page_def save_state_eq load_page_def Let_def)
next
  assume a: "pdf_document w = Some d \<and> truth d \<and> 0 < current_page_num w \<and>
    renders d (current_page_num w - 1)"
  then show "current_page_num (prev_page E w) = current_page_num w - 1"
    and "timer_running (prev_page E w) = timer_running w"
    and "state_file (prev_page E w) =
      Some (record_of (doc_name d) (current_page_num w - 1) (end_time w))"
    by (simp_all add: prev_page_def save_state_eq load_page_def Let_def)
qed

text \<open>The running session at its deadline, a path that does not open, the press onto
  the last page of the book, and the press back from it.\<close>

theorem record_deletion_cases_witness:
  "timer_running reading \<and> num_of (end_time reading) = Some 2800 \<and> (2800::real) \<le> 2800 \<and>
   update_timer desk 2800 reading = Returns (finish_session desk reading) \<and>
   state_file (finish_session desk reading) = None \<and>
   fitz_open desk ''lost.pdf'' = None \<and>
   state_file (start_session desk (JStr ''lost.pdf'') 1800 0 False 2800 2801 reading) = None \<and>
   pdf_document (next_page desk reading) = Some book \<and> truth book \<and>
   current_page_num (next_page desk reading) < total_pages (next_page desk reading) - 1 \<and>
   renders book (current_page_num (next_page desk reading) + 1) \<and>
   current_page_num (next_page desk (next_page desk reading)) = 2 \<and>
   timer_running (next_page desk (next_page desk reading)) \<and>
   state_file (next_page desk (next_page desk reading)) =
     Some (record_of ''book.pdf'' 2 (JReal 2800)) \<and>
   0 < current_page_num (next_page desk reading) \<and>
   renders book (current_page_num (next_page desk reading) - 1) \<and>
   state_file (prev_page desk (next_page desk reading)) =
     Some (record_of ''book.pdf'' 0 (JReal 2800))"
proof -
  have h1: "timer_running reading \<and> num_of (end_time reading) = Some 2800 \<and> (2800::real) \<le> 2800"
    by (simp add: reading_eq)
  have h2: "fitz_open desk ''lost.pdf'' = None"
    by (simp add: desk_defs)
  have h3: "pdf_document (next_page desk reading) = Some book \<and> truth book \<and>
     current_page_num (next_page desk reading) = 1 \<and>
     total_pages (next_page desk reading) = 3 \<and>
     renders book 2 \<and> renders book 0 \<and>
     doc_name book = ''book.pdf'' \<and> timer_running (next_page desk reading) \<and>
     end_time (next_page desk reading) = JReal 2800"
    by (simp add: reading_eq model_defs desk_defs Let_def)
  from h1 h2 h3
    record_deletion_cases [where w = reading and e = 2800 and now = 2800 and E = desk
      and p = "''lost.pdf''" and dur = 1800 and pn = 0 and r = False and tick = 2801
      and ?w0.0 = reading]
    record_deletion_cases [where w = "next_page desk reading" and E = desk and d = book]
  show ?thesis by simp
qed

text \<open>
  C1 as stated fails where the reader reaches the final page. Two presses of Next take
  the running session on the three-page book to page 2, the last one; the page is
  shown, the timer still runs, and the state file holds the record of page 2.
\<close>

theorem last_page_keeps_record:
  "current_page_num (run_nav desk [Next, Next] reading) =
     total_pages (run_nav desk [Next, Next] reading) - 1 \<and>
   image_on_canvas (run_nav desk [Next, Next] reading) = Some 2 \<and>
   timer_running (run_nav desk [Next, Next] reading) \<and>
   state_file (run_nav desk [Next, Next] reading) =
     Some (record_of ''book.pdf'' 2 (JReal 2800))"
  by (simp add: reading_eq model_defs desk_defs Let_def)

section \<open>Startup with an expired record\<close>

text \<open>
  C4, as the code has it. When the state file holds a record whose \<^verbatim>\<open>end_time\<close> is a
  number that \<^verbatim>\<open>end_time - time.time()\<close> can be computed for (a float, a bool, or an int
  that converts to a float) and that number is at or before the clock reading of
  \<^verbatim>\<open>check_for_saved_session\<close>, the method returns the state it found with the state
  file deleted (and the auto-start entry removed on Windows) and nothing else changed:
  no document is opened and no timer is started. \<open>num_of v = Some e\<close> says that the
  \<^verbatim>\<open>end_time\<close> is such a number and \<open>e\<close> the float it stands for.
\<close>

theorem expired_session_discarded:
  "state_file w = Some (Json (JObj kvs)) \<Longrightarrow> map_of kvs ''end_time'' = Some v \<Longrightarrow>
   num_of v = Some e \<Longrightarrow> e \<le> t \<Longrightarrow>
   check_for_saved_session E t now tick w = Some (Returns (clear_state E w)) \<and>
   clear_state E w = w\<lparr>state_file := None,
                         run_value := (if IS_WINDOWS E then None else run_value w)\<rparr>"
  by (cases kvs) (auto simp add: check_for_saved_session_def load_state_def clear_state_eq)

text \<open>A record of the book whose deadline 2800 is the time of the check, and one whose
  deadline is the int 100.\<close>

theorem expired_session_discarded_witness:
  "state_file (fresh (Some (record_of ''book.pdf'' 1 (JReal 2800)))) =
     Some (Json (JObj [(''pdf_path'', JStr ''book.pdf''), (''page_num'', JInt 1),
                       (''end_time'', JReal 2800)])) \<and>
   map_of [(''pdf_path'', JStr ''book.pdf''), (''page_num'', JInt 1),
           (''end_time'', JReal 2800)] ''end_time'' = Some (JReal 2800) \<and>
   num_of (JReal 2800) = Some 2800 \<and> (2800::real) \<le> 2800 \<and>
   check_for_saved_session desk 2800 2801 2802 (fresh (Some (record_of ''book.pdf'' 1 (JReal 2800))))
     = Some (Returns (fresh None)) \<and>
   num_of (JInt 100) = Some 100 \<and> (100::real) \<le> 2800 \<and>
   check_for_saved_session desk 2800 2801 2802 (fresh (Some (record_of ''book.pdf'' 1 (JInt 100))))
     = Some (Returns (fresh None))"
proof -
  have h: "state_file (fresh (Some (record_of ''book.pdf'' 1 (JReal 2800)))) =
     Some (Json (JObj [(''pdf_path'', JStr ''book.pdf''), (''page_num'', JInt 1),
                       (''end_time'', JReal 2800)]))"
    by (simp add: fresh_def record_of_def)
  have m: "map_of [(''pdf_path'', JStr ''book.pdf''), (''page_num'', JInt 1),
           (''end_time'', JReal 2800)] ''end_time'' = Some (JReal 2800)"
    by simp
  have n: "num_of (JReal 2800) = Some 2800" and l: "(2800::real) \<le> 2800"
    by simp_all
  have h': "state_file (fresh (Some (record_of ''book.pdf'' 1 (JInt 100)))) =
     Some (Json (JObj [(''pdf_path'', JStr ''book.pdf''), (''page_num'', JInt 1),
                       (''end_time'', JInt 100)]))"
    by (simp add: fresh_def record_of_def)
  have m': "map_of [(''pdf_path'', JStr ''book.pdf''), (''page_num'', JInt 1),
           (''end_time'', JInt 100)] ''end_time'' = Some (JInt 100)"
    by simp
  have n': "num_of (JInt 100) = Some 100" and l': "(100::real) \<le> 2800"
    by (simp_all add: py_float_exact)
  from expired_session_discarded [OF h m n l, of desk 2801 2802]
    expired_session_discarded [OF h' m' n' l', of desk 2801 2802] h m n' 
  show ?thesis by (simp add: fresh_def desk_def)
qed

text \<open>
  C4 as stated fails for an \<^verbatim>\<open>end_time\<close> that is an int beyond the range of floats. The
  record has \<^verbatim>\<open>end_time\<close> \<open>- (2 ^ 1024)\<close>, far before the clock reading 50, but the
  subtraction of the clock reading raises \<^verbatim>\<open>OverflowError\<close>: the method ends there and
  the state file is as it was.
\<close>

theorem overflowing_end_time_not_cleared:
  "(of_int (- (2 ^ 1024)) :: real) \<le> 50 \<and>
   check_for_saved_session desk 50 51 52
     (fresh (Some (record_of ''book.pdf'' 1 (JInt (- (2 ^ 1024))))))
   = Some (Raises OverflowError (fresh (Some (record_of ''book.pdf'' 1 (JInt (- (2 ^ 1024)))))))"
  by (simp add: check_for_saved_session_def load_state_def fresh_def record_of_def py_float_def)

section \<open>A PDF without pages\<close>

text \<open>
  C5. When \<^verbatim>\<open>fitz.open\<close> returns a document whose page count is 0, \<^verbatim>\<open>start_session\<close>
  shows the error box ``Error'', starts no timer (the timer fields, the deadline and
  the state file are as before) and leaves the viewer reset: no document that counts
  as one, page index 0, no pages, an empty canvas.
\<close>

theorem empty_pdf_rejected:
  "fitz_open E p = Some d \<Longrightarrow> page_count d = 0 \<Longrightarrow>
   boxes (start_session E (JStr p) dur pn r now tick w) = boxes w @ [Showerror Error] \<and>
   timer_running (start_session E (JStr p) dur pn r now tick w) = timer_running w \<and>
   timer_after_id (start_session E (JStr p) dur pn r now tick w) = timer_after_id w \<and>
   end_time (start_session E (JStr p) dur pn r now tick w) = end_time w \<and>
   state_file (start_session E (JStr p) dur pn r now tick w) = state_file w \<and>
   run_value (start_session E (JStr p) dur pn r now tick w) = run_value w \<and>
   controls_disabled (start_session E (JStr p) dur pn r now tick w) = controls_disabled w \<and>
   \<not> has_document (start_session E (JStr p) dur pn r now tick w) \<and>
   current_page_num (start_session E (JStr p) dur pn r now tick w) = 0 \<and>
   total_pages (start_session E (JStr p) dur pn r now tick w) = 0 \<and>
   image_on_canvas (start_session E (JStr p) dur pn r now tick w) = None"
  by (simp add: start_session_def start_session_try_def reset_viewer_def messagebox_def
        has_document_def Let_def)

text \<open>The PDF without pages, selected in a fresh application.\<close>

theorem empty_pdf_rejected_witness:
  "fitz_open desk ''blank.pdf'' = Some blank \<and> page_count blank = 0 \<and>
   boxes (start_session desk (JStr ''blank.pdf'') 1800 0 False 1000 1001 (fresh None))
     = [Showerror Error] \<and>
   \<not> timer_running (start_session desk (JStr ''blank.pdf'') 1800 0 False 1000 1001 (fresh None)) \<and>
   \<not> has_document (start_session desk (JStr ''blank.pdf'') 1800 0 False 1000 1001 (fresh None))"
proof -
  have h: "fitz_open desk ''blank.pdf'' = Some blank" and z: "page_count blank = 0"
    by (simp_all add: desk_defs)
  from empty_pdf_rejected [OF h z, of 1800 0 False 1000 1001 "fresh None"] h z
  show ?thesis by (simp add: fresh_def)
qed

section \<open>The saved page and the page on the canvas\<close>
















section \<open>The end of a session, twice\<close>

text \<open>
  C6. \<^verbatim>\<open>finish_session\<close> leaves no record, no running timer and no pending tick. After
  it the state file is not there to be unlinked again, and a second \<^verbatim>\<open>finish_session\<close>
  changes nothing but the list of message boxes shown: it ends in the same state, and
  like the first it returns. \<^verbatim>\<open>clear_state\<close> on a missing state file only removes the
  auto-start entry, and clearing twice is clearing once.
\<close>

theorem finish_session_idempotent:
  "session_over (finish_session E w) \<and>
   unlink (finish_session E w) = Inl FileNotFoundError \<and>
   finish_session E (finish_session E w) = messagebox (Showinfo Times_Up) (finish_session E w) \<and>
   session_over (finish_session E (finish_session E w)) \<and>
   (state_file w = None \<longrightarrow> clear_state E w = remove_from_startup E w \<and>
      state_file (clear_state E w) = None) \<and>
   clear_state E (clear_state E w) = clear_state E w"
  by (simp add: session_over_def finish_session_eq clear_state_eq remove_from_startup_eq
        unlink_def messagebox_def)

text \<open>The running session finished twice, and \<^verbatim>\<open>clear_state\<close> with no state file.\<close>

theorem finish_session_idempotent_witness:
  "session_over (finish_session desk reading) \<and>
   finish_session desk (finish_session desk reading) =
     messagebox (Showinfo Times_Up) (finish_session desk reading) \<and>
   state_file (fresh None) = None \<and>
   clear_state desk (fresh None) = fresh None \<and>
   state_file (clear_state desk (fresh None)) = None"
proof -
  have a: "state_file (fresh None) = None"
    by (simp add: fresh_def)
  have b: "remove_from_startup desk (fresh None) = fresh None"
    by (simp add: remove_from_startup_eq fresh_def desk_def)
  from a b finish_session_idempotent [of desk reading] finish_session_idempotent [of desk "fresh None"]
  show ?thesis by simp
qed

section \<open>Startup with a missing or unreadable state file\<close>

text \<open>
  C7, as the code has it. When the state file is missing, holds text that is not
  valid JSON, or holds a JSON value that is false in Python (\<^verbatim>\<open>null\<close>, \<^verbatim>\<open>false\<close>, \<^verbatim>\<open>0\<close>, an empty string, list
  or object), \<^verbatim>\<open>check_for_saved_session\<close> returns and leaves everything as it was: no
  session, no message box, the file untouched. The shape of any other value is not
  examined before it is used.
\<close>

theorem unreadable_state_ignored:
  "state_file w = None \<or> state_file w = Some Garbled \<or>
     (\<exists>j. state_file w = Some (Json j) \<and> \<not> truthy j) \<Longrightarrow>
   check_for_saved_session E t now tick w = Some (Returns w)"
  by (auto simp add: check_for_saved_session_def load_state_def)

text \<open>Undecodable text, no file, and the empty object.\<close>

theorem unreadable_state_ignored_witness:
  "state_file (fresh (Some Garbled)) = Some Garbled \<and>
   check_for_saved_session desk 50 51 52 (fresh (Some Garbled)) = Some (Returns (fresh (Some Garbled))) \<and>
   state_file (fresh None) = None \<and>
   check_for_saved_session desk 50 51 52 (fresh None) = Some (Returns (fresh None)) \<and>
   state_file (fresh (Some (Json (JObj [])))) = Some (Json (JObj [])) \<and> \<not> truthy (JObj []) \<and>
   check_for_saved_session desk 50 51 52 (fresh (Some (Json (JObj []))))
     = Some (Returns (fresh (Some (Json (JObj [])))))"
proof -
  have a: "state_file (fresh (Some Garbled)) = Some Garbled"
    and b: "state_file (fresh None) = None"
    and c: "state_file (fresh (Some (Json (JObj [])))) = Some (Json (JObj []))"
    and d: "\<not> truthy (JObj [])"
    by (simp_all add: fresh_def)
  from c d have c': "\<exists>j. state_file (fresh (Some (Json (JObj [])))) = Some (Json j) \<and> \<not> truthy j"
    by blast
  from a b c d
    unreadable_state_ignored [of "fresh (Some Garbled)" desk 50 51 52, OF disjI2, OF disjI1, OF a]
    unreadable_state_ignored [of "fresh None" desk 50 51 52, OF disjI1, OF b]
    unreadable_state_ignored [of "fresh (Some (Json (JObj [])))" desk 50 51 52, OF disjI2, OF disjI2, OF c']
  show ?thesis by simp
qed

text \<open>
  C7 as stated fails for a record that is valid JSON but not usable. The file holds
  \<^verbatim>\<open>{"pdf_path": null, "page_num": 0, "end_time": 100}\<close> and the time is 50: the
  deadline is ahead, \<^verbatim>\<open>start_session\<close> is called with the path \<^verbatim>\<open>None\<close>, and the user
  is shown the error box ``Error Loading PDF''.
\<close>

theorem unusable_record_shows_error:
  "check_for_saved_session desk 50 51 52
     (fresh (Some (Json (JObj [(''pdf_path'', JNull), (''page_num'', JInt 0),
                               (''end_time'', JInt 100)]))))
   = Some (Returns ((fresh None)\<lparr>boxes := [Showerror Error_Loading_PDF]\<rparr>))"
  by (simp add: model_defs desk_defs Let_def)

section \<open>The auto-start command\<close>

text \<open>
  C8, as the code has it. On Windows \<^verbatim>\<open>save_state\<close> registers the command made of the
  quoted path of the interpreter (\<^verbatim>\<open>pythonw.exe\<close> beside \<^verbatim>\<open>sys.executable\<close> when that
  file exists, \<^verbatim>\<open>sys.executable\<close> otherwise), a space, and the quoted absolute path of
  the script: the script is an argument of the command, which is therefore never the
  executable path alone. On another platform nothing is registered.
\<close>

theorem startup_command_has_script_argument:
  "(IS_WINDOWS E \<longrightarrow>
      run_value (save_state E p n e w) =
        Some (quoted (app_executable E) @ '' '' @ quoted (argv0_abspath E))) \<and>
   (\<not> IS_WINDOWS E \<longrightarrow> run_value (save_state E p n e w) = run_value w) \<and>
   quoted (app_executable E) @ '' '' @ quoted (argv0_abspath E) \<noteq> app_executable E \<and>
   quoted (app_executable E) @ '' '' @ quoted (argv0_abspath E) \<noteq> quoted (app_executable E)"
  by (simp add: save_state_eq command_def quoted_def)

text \<open>The Windows installation, and the same with \<^verbatim>\<open>IS_WINDOWS\<close> false.\<close>

theorem startup_command_has_script_argument_witness:
  "IS_WINDOWS desk \<and>
   run_value (save_state desk ''book.pdf'' 0 (JReal 2800) (fresh None)) =
     Some (quoted (app_executable desk) @ '' '' @ quoted ''reader.pyw'') \<and>
   \<not> IS_WINDOWS (desk\<lparr>IS_WINDOWS := False\<rparr>) \<and>
   run_value (save_state (desk\<lparr>IS_WINDOWS := False\<rparr>) ''book.pdf'' 0 (JReal 2800) (fresh None))
     = None"
proof -
  have a: "IS_WINDOWS desk" and b: "\<not> IS_WINDOWS (desk\<lparr>IS_WINDOWS := False\<rparr>)"
    and c: "argv0_abspath desk = ''reader.pyw''" and d: "run_value (fresh None) = None"
    by (simp_all add: desk_def fresh_def)
  from a b c d
    startup_command_has_script_argument [of desk "''book.pdf''" 0 "JReal 2800" "fresh None"]
    startup_command_has_script_argument [of "desk\<lparr>IS_WINDOWS := False\<rparr>" "''book.pdf''" 0
       "JReal 2800" "fresh None"]
  show ?thesis by simp
qed

text \<open>
  C8 as stated fails on the Windows installation: the registered command is the
  quoted path of \<^verbatim>\<open>pythonw.exe\<close> in the \<^verbatim>\<open>Python\<close> directory of drive \<^verbatim>\<open>C:\<close>, a space, and
  the quoted \<^verbatim>\<open>reader.pyw\<close>: the executable followed by the script, not the executable
  path alone, quoted or not.
\<close>

theorem startup_command_is_not_the_executable_alone:
  "run_value (save_state desk ''book.pdf'' 0 (JReal 2800) (fresh None)) =
     Some (quoted (''C:'' @ [CHR 0x5C] @ ''Python'' @ [CHR 0x5C] @ ''pythonw.exe'') @ '' '' @
           quoted ''reader.pyw'') \<and>
   app_executable desk = ''C:'' @ [CHR 0x5C] @ ''Python'' @ [CHR 0x5C] @ ''pythonw.exe'' \<and>
   run_value (save_state desk ''book.pdf'' 0 (JReal 2800) (fresh None)) \<noteq>
     Some (app_executable desk) \<and>
   run_value (save_state desk ''book.pdf'' 0 (JReal 2800) (fresh None)) \<noteq>
     Some (quoted (app_executable desk))"
  by (simp add: save_state_eq command_def quoted_def app_executable_def parent_def
        joinpath_def path_str_def desk_defs)

section \<open>The deadline of a resumed session\<close>

lemma update_timer_end_time: "end_time (final (update_timer E t w)) = end_time w"
  by (simp add: update_timer_def finish_session_eq clear_state_eq split: option.splits)

text \<open>
  C9. With \<^verbatim>\<open>is_resume\<close> true and a state file that holds a dict with an \<^verbatim>\<open>end_time\<close>,
  \<^verbatim>\<open>start_timer\<close> sets the deadline to that value, whatever the duration passed in and
  whatever the clock reads. At startup, a record whose \<^verbatim>\<open>end_time\<close> is a number that
  converts to a float (\<open>num_of v = Some e\<close>) and lies ahead, for a PDF that opens with at
  least one page and whose saved page renders, is resumed with exactly the
  \<^verbatim>\<open>end_time\<close> of the record. An int beyond the range of floats is no such number:
  no session is resumed from it.
\<close>

theorem resume_keeps_deadline:
  "(state_file w = Some (Json (JObj kvs)) \<and> map_of kvs ''end_time'' = Some v \<longrightarrow>
      end_time (final (start_timer E dur True now tick w)) = v) \<and>
   (state_file w = Some (Json (JObj kvs)) \<and> map_of kvs ''end_time'' = Some v \<and>
    num_of v = Some e \<and> t < e \<and>
    map_of kvs ''pdf_path'' = Some (JStr p) \<and> map_of kvs ''page_num'' = Some (JInt n) \<and>
    fitz_open E p = Some d \<and> page_count d \<noteq> 0 \<and> (truth d \<longrightarrow> renders d n) \<longrightarrow>
      check_for_saved_session E t now tick w =
        Some (Returns (start_session E (JStr p) (e - t) n True now tick w)) \<and>
      end_time (start_session E (JStr p) (e - t) n True now tick w) = v)"
proof (intro conjI impI)
  assume a: "state_file w = Some (Json (JObj kvs)) \<and> map_of kvs ''end_time'' = Some v"
  then have "kvs \<noteq> []" by auto
  with a show "end_time (final (start_timer E dur True now tick w)) = v"
    by (simp add: start_timer_def load_state_def update_timer_end_time)
next
  assume a: "state_file w = Some (Json (JObj kvs)) \<and> map_of kvs ''end_time'' = Some v \<and>
    num_of v = Some e \<and> t < e \<and>
    map_of kvs ''pdf_path'' = Some (JStr p) \<and> map_of kvs ''page_num'' = Some (JInt n) \<and>
    fitz_open E p = Some d \<and> page_count d \<noteq> 0 \<and> (truth d \<longrightarrow> renders d n)"
  then have ne: "kvs \<noteq> []" by auto
  from a ne show "check_for_saved_session E t now tick w =
        Some (Returns (start_session E (JStr p) (e - t) n True now tick w))"
    by (simp add: check_for_saved_session_def load_state_def)
  let ?w2 = "load_page E ((reset_viewer w)\<lparr>pdf_document := Some d,
                 total_pages := int (page_count d), current_page_num := n\<rparr>)"
  from a have sf: "state_file ?w2 = Some (Json (JObj kvs))"
    by (auto simp add: load_page_def reset_viewer_def)
  from a ne sf have st: "start_timer E (e - t) True now tick ?w2 =
      update_timer E tick (?w2\<lparr>end_time := v, timer_running := True\<rparr>)"
    by (simp add: start_timer_def load_state_def)
  from a have "\<exists>w3. update_timer E tick (?w2\<lparr>end_time := v, timer_running := True\<rparr>) = Returns w3
      \<and> end_time w3 = v"
    by (simp add: update_timer_def finish_session_eq clear_state_eq)
  then obtain w3 where w3: "update_timer E tick (?w2\<lparr>end_time := v, timer_running := True\<rparr>)
      = Returns w3" "end_time w3 = v"
    by blast
  from a st w3 show "end_time (start_session E (JStr p) (e - t) n True now tick w) = v"
    by (simp add: start_session_def start_session_try_def disable_controls_def Let_def)
qed

text \<open>The record of page 1 with deadline 2800, found at time 50 and resumed when the
  clock reads 2000.\<close>

theorem resume_keeps_deadline_witness:
  "check_for_saved_session desk 50 2000 2001 (fresh (Some (record_of ''book.pdf'' 1 (JReal 2800))))
     = Some (Returns (start_session desk (JStr ''book.pdf'') (2800 - 50) 1 True 2000 2001
          (fresh (Some (record_of ''book.pdf'' 1 (JReal 2800)))))) \<and>
   end_time (start_session desk (JStr ''book.pdf'') (2800 - 50) 1 True 2000 2001
          (fresh (Some (record_of ''book.pdf'' 1 (JReal 2800))))) = JReal 2800 \<and>
   end_time (final (start_timer desk 2750 True 2000 2001
          (fresh (Some (record_of ''book.pdf'' 1 (JReal 2800)))))) = JReal 2800"
proof -
  let ?kvs = "[(''pdf_path'', JStr ''book.pdf''), (''page_num'', JInt 1),
               (''end_time'', JReal 2800)]"
  let ?w = "fresh (Some (record_of ''book.pdf'' 1 (JReal 2800)))"
  have h: "state_file ?w = Some (Json (JObj ?kvs)) \<and> map_of ?kvs ''end_time'' = Some (JReal 2800) \<and>
    num_of (JReal 2800) = Some 2800 \<and> (50::real) < 2800 \<and>
    map_of ?kvs ''pdf_path'' = Some (JStr ''book.pdf'') \<and> map_of ?kvs ''page_num'' = Some (JInt 1) \<and>
    fitz_open desk ''book.pdf'' = Some book \<and> page_count book \<noteq> 0 \<and> (truth book \<longrightarrow> renders book 1)"
    by (simp add: desk_defs)
  from h resume_keeps_deadline [where w = ?w and kvs = ?kvs and v = "JReal 2800" and e = 2800
      and t = 50 and p = "''book.pdf''" and n = 1 and E = desk and d = book and dur = 2750
      and now = 2000 and tick = 2001]
  show ?thesis by simp
qed

section \<open>The timer dialog\<close>

lemma on_start_keeps:
  "total_seconds d = 0 \<Longrightarrow>
   (\<not> destroyed (on_start hours minutes d) \<longrightarrow> total_seconds (on_start hours minutes d) = 0) \<and>
   0 \<le> total_seconds (on_start hours minutes d)"
  by (auto simp add: on_start_def Let_def split: option.splits)

lemma run_dialog_keeps:
  "(\<not> destroyed d \<longrightarrow> total_seconds d = 0) \<Longrightarrow> 0 \<le> total_seconds d \<Longrightarrow>
   (\<not> destroyed (run_dialog evs d) \<longrightarrow> total_seconds (run_dialog evs d) = 0) \<and>
   0 \<le> total_seconds (run_dialog evs d)"
proof (induction evs arbitrary: d)
  case Nil
  then show ?case by simp
next
  case (Cons ev evs)
  show ?case
  proof (cases "destroyed d")
    case True
    with Cons.prems show ?thesis by simp
  next
    case False
    with Cons.prems have z: "total_seconds d = 0" by simp
    show ?thesis
    proof (cases ev)
      case (Start hours minutes)
      from on_start_keeps [OF z, of hours minutes] Cons.IH [of "on_start hours minutes d"]
        False Start
      show ?thesis by simp
    next
      case Cancel
      from Cons.IH [of "on_cancel d"] False Cancel
      show ?thesis by (simp add: on_cancel_def)
    qed
  qed
qed

text \<open>
  C10. In a dialog that is open with \<^verbatim>\<open>total_seconds = 0\<close>, \<^verbatim>\<open>on_start\<close> closes the
  dialog exactly when both entries are integers, neither is negative and
  \<^verbatim>\<open>hours * 3600 + minutes * 60\<close> is positive, and then \<^verbatim>\<open>total_seconds\<close> is that sum;
  otherwise the dialog stays open and \<^verbatim>\<open>total_seconds\<close> is still 0. \<^verbatim>\<open>on_cancel\<close> closes
  it with \<^verbatim>\<open>total_seconds = 0\<close>. However the dialog is used, \<^verbatim>\<open>total_seconds\<close> is never
  negative and is 0 while the dialog is open. \<^verbatim>\<open>select_pdf\<close> starts a session only for a
  positive \<^verbatim>\<open>total_seconds\<close> and otherwise shows ``Cancelled'' and does nothing else.
\<close>

theorem dialog_accepts_positive_durations:
  "(total_seconds d = 0 \<and> \<not> destroyed d \<longrightarrow>
      (destroyed (on_start hours minutes d) \<longleftrightarrow>
         (\<exists>h m. hours = Some h \<and> minutes = Some m \<and> 0 \<le> h \<and> 0 \<le> m \<and> 0 < h * 3600 + m * 60)) \<and>
      (\<not> destroyed (on_start hours minutes d) \<longrightarrow> total_seconds (on_start hours minutes d) = 0) \<and>
      (\<forall>h m. destroyed (on_start hours minutes d) \<and> hours = Some h \<and> minutes = Some m \<longrightarrow>
         total_seconds (on_start hours minutes d) = h * 3600 + m * 60)) \<and>
   total_seconds (on_cancel d) = 0 \<and> destroyed (on_cancel d) \<and>
   (\<not> destroyed (run_dialog evs new_dialog) \<longrightarrow> total_seconds (run_dialog evs new_dialog) = 0) \<and>
   0 \<le> total_seconds (run_dialog evs new_dialog) \<and>
   (\<not> timer_running w \<and> chosen \<noteq> [] \<and> total_seconds dlg \<le> 0 \<longrightarrow>
      select_pdf E chosen dlg now tick w = messagebox (Showinfo Cancelled) w) \<and>
   (\<not> timer_running w \<and> chosen \<noteq> [] \<and> 0 < total_seconds dlg \<longrightarrow>
      select_pdf E chosen dlg now tick w =
        start_session E (JStr chosen) (of_int (total_seconds dlg)) 0 False now tick w)"
proof -
  have a: "total_seconds d = 0 \<and> \<not> destroyed d \<longrightarrow>
      (destroyed (on_start hours minutes d) \<longleftrightarrow>
         (\<exists>h m. hours = Some h \<and> minutes = Some m \<and> 0 \<le> h \<and> 0 \<le> m \<and> 0 < h * 3600 + m * 60)) \<and>
      (\<not> destroyed (on_start hours minutes d) \<longrightarrow> total_seconds (on_start hours minutes d) = 0) \<and>
      (\<forall>h m. destroyed (on_start hours minutes d) \<and> hours = Some h \<and> minutes = Some m \<longrightarrow>
         total_seconds (on_start hours minutes d) = h * 3600 + m * 60)"
    by (auto simp add: on_start_def Let_def split: option.splits)
  have b: "total_seconds (on_cancel d) = 0 \<and> destroyed (on_cancel d)"
    by (simp add: on_cancel_def)
  have c: "(\<not> destroyed (run_dialog evs new_dialog) \<longrightarrow>
        total_seconds (run_dialog evs new_dialog) = 0) \<and>
      0 \<le> total_seconds (run_dialog evs new_dialog)"
    by (rule run_dialog_keeps) (simp_all add: new_dialog_def)
  have e: "(\<not> timer_running w \<and> chosen \<noteq> [] \<and> total_seconds dlg \<le> 0 \<longrightarrow>
      select_pdf E chosen dlg now tick w = messagebox (Showinfo Cancelled) w) \<and>
   (\<not> timer_running w \<and> chosen \<noteq> [] \<and> 0 < total_seconds dlg \<longrightarrow>
      select_pdf E chosen dlg now tick w =
        start_session E (JStr chosen) (of_int (total_seconds dlg)) 0 False now tick w)"
    by (simp add: select_pdf_def Let_def)
  from a b c e show ?thesis by blast
qed

text \<open>Thirty minutes, zero minutes, a negative hour, an entry that is not a number,
  and the cancelled dialog.\<close>

theorem dialog_accepts_positive_durations_witness:
  "total_seconds new_dialog = 0 \<and> \<not> destroyed new_dialog \<and>
   destroyed (on_start (Some 0) (Some 30) new_dialog) \<and>
   total_seconds (on_start (Some 0) (Some 30) new_dialog) = 1800 \<and>
   \<not> destroyed (on_start (Some 0) (Some 0) new_dialog) \<and>
   total_seconds (on_start (Some 0) (Some 0) new_dialog) = 0 \<and>
   \<not> destroyed (on_start (Some (- 1)) (Some 90) new_dialog) \<and>
   total_seconds (on_start (Some (- 1)) (Some 90) new_dialog) = 0 \<and>
   \<not> destroyed (on_start None (Some 30) new_dialog) \<and>
   \<not> timer_running (fresh None) \<and> total_seconds (on_cancel new_dialog) \<le> 0 \<and>
   select_pdf desk ''book.pdf'' (on_cancel new_dialog) 1000 1001 (fresh None) =
     messagebox (Showinfo Cancelled) (fresh None)"
proof -
  have n: "total_seconds new_dialog = 0 \<and> \<not> destroyed new_dialog"
    by (simp add: new_dialog_def)
  have f: "\<not> timer_running (fresh None)"
    by (simp add: fresh_def)
  have c: "total_seconds (on_cancel new_dialog) \<le> 0"
    by (simp add: on_cancel_def)
  from n f c
    dialog_accepts_positive_durations [where d = new_dialog and hours = "Some 0"
      and minutes = "Some 30"]
    dialog_accepts_positive_durations [where d = new_dialog and hours = "Some 0"
      and minutes = "Some 0"]
    dialog_accepts_positive_durations [where d = new_dialog and hours = "Some (- 1)"
      and minutes = "Some 90"]
    dialog_accepts_positive_durations [where d = new_dialog and hours = None
      and minutes = "Some 30" and w = "fresh None" and chosen = "''book.pdf''"
      and dlg = "on_cancel new_dialog" and E = desk and now = 1000 and tick = 1001]
  show ?thesis by simp
qed

end
